theory Spec2Isabelle
  imports Main
begin

section \<open>Data model\<close>

text \<open>
  The platform accessory of hoobs-core (\<^verbatim>\<open>PlatformAccessory\<close>) holds an ordered list of
  HAP services. Services are JavaScript objects: they are compared by reference
  (\<^verbatim>\<open>===\<close>), shared between the accessory and its HAP twin, and mutated after they
  have been stored. The model therefore keeps the objects in an explicit store: a
  reference is a natural number and the heap maps every reference to the state of the
  object it denotes. Opaque JavaScript values (characteristic values, props, the context
  bag) are values of \<open>jsval\<close>.
\<close>

datatype jsval = JUndefined | JNull | JBool bool | JNum int | JStr string

type_synonym ref = nat

record characteristic =
  c_displayName :: "string option"
  c_UUID :: string
  props :: "(string \<times> jsval) list"
  c_value :: jsval
  eventOnlyCharacteristic :: bool

text \<open>
  An element of the array \<^verbatim>\<open>linkedServices\<close> of a service: a reference to a service
  object or, since \<^verbatim>\<open>addLinkedService\<close> is handed whatever the caller found, an
  object that is not a service.
\<close>

datatype linked = LinkedService ref | NotAService

text \<open>
  A service object. \<open>subtype\<close> is \<open>None\<close> when the property is \<^verbatim>\<open>undefined\<close>.
  \<open>instanceOf\<close> lists the constructors on the prototype chain of the object (what
  \<^verbatim>\<open>instanceof\<close> tests); \<open>linkedServices\<close> holds the linked objects.
\<close>

record service =
  s_displayName :: "string option"
  s_name :: "string option"
  s_UUID :: string
  subtype :: "string option"
  instanceOf :: "string list"
  characteristics :: "characteristic list"
  linkedServices :: "linked list"

record store =
  heap :: "ref \<Rightarrow> service"
  next_ref :: ref

text \<open>
  The attached HAP accessory (\<^verbatim>\<open>_associatedHAPAccessory\<close>). Its class lives in
  hap-nodejs; only the fields that the platform accessory writes are kept.
\<close>

record hap_accessory =
  hap_displayName :: string
  hap_UUID :: string
  hap_services :: "ref list"
  hap_category :: nat
  hap_reachable :: bool

record accessory =
  displayName :: string
  UUID :: string
  category :: nat
  services :: "ref list"
  reachable :: bool
  acc_context :: "(string \<times> jsval) list"
  associatedPlugin :: "string option"
  associatedPlatform :: "string option"
  associatedHAPAccessory :: "hap_accessory option"

text \<open>
  The source throws plain \<^verbatim>\<open>Error\<close> objects that differ in their message only. The
  two checks of the constructor arguments are \<open>InvalidArgumentError\<close>, the two checks
  of \<^verbatim>\<open>addService\<close> are \<open>DuplicateIdentityError\<close> (carrying the colliding UUID and,
  for a full duplicate, the subtype named in the message). \<open>TypeError\<close> is what the
  JavaScript runtime raises when a property of \<^verbatim>\<open>undefined\<close> is read.
\<close>

datatype invalid_argument = EmptyDisplayName | EmptyUUID | InvalidUUID string

datatype error =
    InvalidArgumentError invalid_argument
  | DuplicateIdentityError string "string option"
  | TypeError

section \<open>JavaScript idioms\<close>

text \<open>\<^verbatim>\<open>!s\<close> for a string-or-undefined \<open>s\<close>: true for \<^verbatim>\<open>undefined\<close> and for the empty string.\<close>

fun falsy :: "string option \<Rightarrow> bool" where
  "falsy None = True"
| "falsy (Some s) = (s = [])"

text \<open>\<^verbatim>\<open>s || ""\<close> for a string-or-undefined \<open>s\<close>.\<close>

fun or_empty :: "string option \<Rightarrow> string" where
  "or_empty None = []"
| "or_empty (Some s) = s"

text \<open>\<^verbatim>\<open>Array.prototype.toString\<close>: the elements joined by a comma.\<close>

fun array_toString :: "string list \<Rightarrow> string" where
  "array_toString [] = []"
| "array_toString [x] = x"
| "array_toString (x # y # ys) = x @ '','' @ array_toString (y # ys)"

section \<open>Service registry\<close>

text \<open>
  The loop of \<^verbatim>\<open>addService\<close> over the existing services, in insertion order. It
  returns the error thrown, if any. For an existing service with the same UUID the
  source first tests \<^verbatim>\<open>!service.subtype\<close> and then evaluates
  \<^verbatim>\<open>service.subtype.toString() === existing.subtype.toString()\<close>; the right-hand side
  raises a \<^verbatim>\<open>TypeError\<close> when the existing service has no subtype.
\<close>

fun addService_check :: "(ref \<Rightarrow> service) \<Rightarrow> service \<Rightarrow> ref list \<Rightarrow> error option" where
  "addService_check h srv [] = None"
| "addService_check h srv (e # es) =
     (let existing = h e in
      if s_UUID existing = s_UUID srv then
        (if falsy (subtype srv) then
           Some (DuplicateIdentityError (s_UUID existing) None)
         else
           (case subtype existing of
              None \<Rightarrow> Some TypeError
            | Some est \<Rightarrow>
                if or_empty (subtype srv) = est then
                  Some (DuplicateIdentityError (s_UUID existing) (subtype existing))
                else addService_check h srv es))
      else addService_check h srv es)"

text \<open>
  Modelled from the spec: \<^verbatim>\<open>addService\<close> of the HAP accessory (hap-nodejs, not part
  of the sources) mirrors the addition: the service is appended.
\<close>

definition hap_addService :: "ref \<Rightarrow> hap_accessory \<Rightarrow> hap_accessory" where
  "hap_addService r a = a\<lparr>hap_services := hap_services a @ [r]\<rparr>"

text \<open>
  \<^verbatim>\<open>addService\<close> for a service object that has been constructed already (the branch
  for a constructor function builds the object first and continues in the same way).
\<close>

definition addService :: "(ref \<Rightarrow> service) \<Rightarrow> accessory \<Rightarrow> ref \<Rightarrow> error + accessory" where
  "addService h this r =
     (case addService_check h (h r) (services this) of
        Some e \<Rightarrow> Inl e
      | None \<Rightarrow>
          Inr (this\<lparr>services := services this @ [r],
                    associatedHAPAccessory :=
                      map_option (hap_addService r) (associatedHAPAccessory this)\<rparr>))"





text \<open>
  The argument of \<^verbatim>\<open>getService\<close>: a string, a function (a constructor, with its
  static \<^verbatim>\<open>UUID\<close> property if it has one), or any other value.
\<close>

datatype selector = SelString string | SelFunction string "string option" | SelOther

fun selects :: "selector \<Rightarrow> service \<Rightarrow> bool" where
  "selects (SelString n) s = (s_displayName s = Some n \<or> s_name s = Some n)"
| "selects (SelFunction c u) s = (c \<in> set (instanceOf s) \<or> u = Some (s_UUID s))"
| "selects SelOther s = False"

fun getService_loop :: "(ref \<Rightarrow> service) \<Rightarrow> selector \<Rightarrow> ref list \<Rightarrow> ref option" where
  "getService_loop h sel [] = None"
| "getService_loop h sel (r # rs) =
     (if selects sel (h r) then Some r else getService_loop h sel rs)"

definition getService :: "(ref \<Rightarrow> service) \<Rightarrow> accessory \<Rightarrow> selector \<Rightarrow> ref option" where
  "getService h this sel = getService_loop h sel (services this)"

fun getServiceByUUIDAndSubType_loop ::
  "(ref \<Rightarrow> service) \<Rightarrow> selector \<Rightarrow> string option \<Rightarrow> ref list \<Rightarrow> ref option" where
  "getServiceByUUIDAndSubType_loop h sel st [] = None"
| "getServiceByUUIDAndSubType_loop h sel st (r # rs) =
     (if selects sel (h r) \<and> subtype (h r) = st then Some r
      else getServiceByUUIDAndSubType_loop h sel st rs)"

definition getServiceByUUIDAndSubType ::
  "(ref \<Rightarrow> service) \<Rightarrow> accessory \<Rightarrow> selector \<Rightarrow> string option \<Rightarrow> ref option" where
  "getServiceByUUIDAndSubType h this sel st =
     getServiceByUUIDAndSubType_loop h sel st (services this)"

text \<open>
  Modelled from the spec: \<^verbatim>\<open>updateReachability\<close> of the HAP accessory (hap-nodejs,
  not part of the sources) mirrors the value onto the HAP accessory.
\<close>

definition hap_updateReachability :: "bool \<Rightarrow> hap_accessory \<Rightarrow> hap_accessory" where
  "hap_updateReachability v a = a\<lparr>hap_reachable := v\<rparr>"

definition updateReachability :: "accessory \<Rightarrow> bool \<Rightarrow> accessory" where
  "updateReachability this v =
     this\<lparr>reachable := v,
          associatedHAPAccessory :=
            map_option (hap_updateReachability v) (associatedHAPAccessory this)\<rparr>"

section \<open>Construction\<close>

text \<open>
  Modelled from the spec: the classes \<^verbatim>\<open>Service\<close> and \<^verbatim>\<open>Characteristic\<close>, the
  accessory-information service and the category table belong to hap-nodejs and are not
  part of the sources. A new object takes the next free reference of the store.
\<close>

definition alloc :: "service \<Rightarrow> store \<Rightarrow> ref \<times> store" where
  "alloc s st =
     (next_ref st, st\<lparr>heap := (heap st)(next_ref st := s), next_ref := Suc (next_ref st)\<rparr>)"

definition new_Characteristic ::
  "string option \<Rightarrow> string \<Rightarrow> (string \<times> jsval) list \<Rightarrow> characteristic" where
  "new_Characteristic dn u p =
     \<lparr>c_displayName = dn, c_UUID = u, props = p, c_value = JNull,
      eventOnlyCharacteristic = False\<rparr>"

definition new_Service :: "string option \<Rightarrow> string \<Rightarrow> string option \<Rightarrow> service" where
  "new_Service dn u st =
     \<lparr>s_displayName = dn, s_name = None, s_UUID = u, subtype = st,
      instanceOf = [''Service''], characteristics = [], linkedServices = []\<rparr>"

definition Categories_OTHER :: nat where
  "Categories_OTHER = 1"

definition Characteristic_Name :: string where
  "Characteristic_Name = ''00000023-0000-1000-8000-0026BB765291''"

definition Characteristic_Manufacturer :: string where
  "Characteristic_Manufacturer = ''00000020-0000-1000-8000-0026BB765291''"

definition Characteristic_Model :: string where
  "Characteristic_Model = ''00000021-0000-1000-8000-0026BB765291''"

definition Characteristic_SerialNumber :: string where
  "Characteristic_SerialNumber = ''00000030-0000-1000-8000-0026BB765291''"

definition Service_AccessoryInformation :: service where
  "Service_AccessoryInformation =
     (new_Service None ''0000003E-0000-1000-8000-0026BB765291'' None)
       \<lparr>instanceOf := [''AccessoryInformation'', ''Service''],
        characteristics :=
          [new_Characteristic (Some ''Name'') Characteristic_Name [],
           new_Characteristic (Some ''Manufacturer'') Characteristic_Manufacturer [],
           new_Characteristic (Some ''Model'') Characteristic_Model [],
           new_Characteristic (Some ''Serial Number'') Characteristic_SerialNumber []]\<rparr>"

text \<open>
  Modelled from the spec: \<^verbatim>\<open>setCharacteristic\<close> of hap-nodejs gives the value to the
  characteristic of the service that has the given type, adding one when the service has
  none of that type.
\<close>

fun setValue :: "string \<Rightarrow> jsval \<Rightarrow> characteristic list \<Rightarrow> characteristic list" where
  "setValue u v [] = [(new_Characteristic None u [])\<lparr>c_value := v\<rparr>]"
| "setValue u v (c # cs) =
     (if c_UUID c = u then c\<lparr>c_value := v\<rparr> # cs else c # setValue u v cs)"

definition setCharacteristic :: "ref \<Rightarrow> string \<Rightarrow> jsval \<Rightarrow> store \<Rightarrow> store" where
  "setCharacteristic r u v st =
     st\<lparr>heap := (heap st)
          (r := (heap st r)\<lparr>characteristics := setValue u v (characteristics (heap st r))\<rparr>)\<rparr>"

text \<open>\<^verbatim>\<open>category || Accessory.Categories.OTHER\<close>; \<open>None\<close> is an omitted argument.\<close>

fun category_or_OTHER :: "nat option \<Rightarrow> nat" where
  "category_or_OTHER None = Categories_OTHER"
| "category_or_OTHER (Some c) = (if c = 0 then Categories_OTHER else c)"

text \<open>
  The constructor. \<open>isValid\<close> is \<^verbatim>\<open>uuid.isValid\<close> of hap-nodejs, a parameter of the
  model. The result is the error thrown, or the store after the construction together
  with the new accessory.
\<close>

definition PlatformAccessory ::
  "(string \<Rightarrow> bool) \<Rightarrow> store \<Rightarrow> string \<Rightarrow> string \<Rightarrow> nat option \<Rightarrow> error + (store \<times> accessory)" where
  "PlatformAccessory isValid st dn u cat =
     (if dn = [] then Inl (InvalidArgumentError EmptyDisplayName)
      else if u = [] then Inl (InvalidArgumentError EmptyUUID)
      else if \<not> isValid u then Inl (InvalidArgumentError (InvalidUUID u))
      else
        (let this = \<lparr>displayName = dn, UUID = u, category = category_or_OTHER cat,
                     services = [], reachable = False, acc_context = [],
                     associatedPlugin = None, associatedPlatform = None,
                     associatedHAPAccessory = None\<rparr>;
             (r, st1) = alloc Service_AccessoryInformation st
         in case addService (heap st1) this r of
              Inl e \<Rightarrow> Inl e
            | Inr this' \<Rightarrow>
                Inr (setCharacteristic r Characteristic_SerialNumber (JStr ''Default-SerialNumber'')
                      (setCharacteristic r Characteristic_Model (JStr ''Default-Model'')
                        (setCharacteristic r Characteristic_Manufacturer (JStr ''Default-Manufacturer'')
                          (setCharacteristic r Characteristic_Name (JStr dn) st1))),
                     this')))"

text \<open>
  Modelled from the spec: a UUID-format test in the manner of \<^verbatim>\<open>uuid.isValid\<close>, used
  where the parameter \<open>isValid\<close> has to be a concrete function: five groups of
  hexadecimal digits of lengths 8, 4, 4, 4 and 12, separated by hyphens.
\<close>

definition is_hex :: "char \<Rightarrow> bool" where
  "is_hex c = (c \<in> set ''0123456789abcdefABCDEF'')"

definition uuid_format :: "string \<Rightarrow> bool" where
  "uuid_format u =
     list_all2 (\<lambda>p c. if p = CHR ''-'' then c = CHR ''-'' else is_hex c)
       ''xxxxxxxx-xxxx-xxxx-xxxx-xxxxxxxxxxxx'' u"

section \<open>Serializer\<close>

record characteristicPresentation =
  cp_displayName :: "string option"
  cp_UUID :: string
  cp_props :: "(string \<times> jsval) list"
  cp_value :: jsval
  cp_eventOnlyCharacteristic :: bool

record servicePresentation =
  sp_displayName :: "string option"
  sp_UUID :: string
  sp_subtype :: "string option"
  sp_characteristics :: "characteristicPresentation list"

text \<open>
  The dictionary of an accessory. \<open>d_linkedServices\<close> is \<open>None\<close> when the dictionary
  has no such entry (the deserializer tests for it); otherwise it lists the own
  properties of the object in the order in which \<^verbatim>\<open>for ... in\<close> enumerates them.
\<close>

record accessoryPresentation =
  plugin :: "string option"
  platform :: "string option"
  d_displayName :: string
  d_UUID :: string
  d_category :: nat
  d_context :: "(string \<times> jsval) list"
  d_linkedServices :: "(string \<times> string list) list option"
  d_services :: "servicePresentation list"

text \<open>
  \<^verbatim>\<open>obj[k] = v\<close> on the dictionary of linked services. An existing key keeps its
  place. A new key that is an array index (a decimal numeral without leading zero below
  4294967295) is enumerated among the array indices, which come first in ascending
  order; any other new key goes to the end. (The key \<^verbatim>\<open>__proto__\<close> is stored like any
  other key here.)
\<close>

fun digit_value :: "char list \<Rightarrow> char \<Rightarrow> nat" where
  "digit_value [] c = 0"
| "digit_value (d # ds) c = (if c = d then 0 else Suc (digit_value ds c))"

fun digits_less :: "string \<Rightarrow> string \<Rightarrow> bool" where
  "digits_less (x # xs) (y # ys) =
     (digit_value ''0123456789'' x < digit_value ''0123456789'' y \<or>
      (x = y \<and> digits_less xs ys))"
| "digits_less xs ys = False"

text \<open>The order of two decimal numerals without leading zeros, by their values.\<close>

definition index_less :: "string \<Rightarrow> string \<Rightarrow> bool" where
  "index_less a b = (length a < length b \<or> (length a = length b \<and> digits_less a b))"

definition is_array_index :: "string \<Rightarrow> bool" where
  "is_array_index k =
     (if k = [] then False
      else if list_all (\<lambda>c. c \<in> set ''0123456789'') k then
        (if k \<noteq> ''0'' \<and> hd k = CHR ''0'' then False else index_less k ''4294967295'')
      else False)"

fun js_replace :: "string \<Rightarrow> 'v \<Rightarrow> (string \<times> 'v) list \<Rightarrow> (string \<times> 'v) list" where
  "js_replace k v [] = []"
| "js_replace k v (p # m) = (if fst p = k then (k, v) # m else p # js_replace k v m)"

fun js_insert :: "string \<Rightarrow> 'v \<Rightarrow> (string \<times> 'v) list \<Rightarrow> (string \<times> 'v) list" where
  "js_insert k v [] = [(k, v)]"
| "js_insert k v (p # m) =
     (if is_array_index k \<and> \<not> (is_array_index (fst p) \<and> index_less (fst p) k)
      then (k, v) # p # m
      else p # js_insert k v m)"

definition js_set :: "string \<Rightarrow> 'v \<Rightarrow> (string \<times> 'v) list \<Rightarrow> (string \<times> 'v) list" where
  "js_set k v m = (if k \<in> set (map fst m) then js_replace k v m else js_insert k v m)"

text \<open>\<^verbatim>\<open>UUID + (subtype || "")\<close>\<close>

definition compositeKey :: "string \<Rightarrow> string option \<Rightarrow> string" where
  "compositeKey u st = u @ or_empty st"

definition characteristic_presentation :: "characteristic \<Rightarrow> characteristicPresentation" where
  "characteristic_presentation c =
     \<lparr>cp_displayName = c_displayName c, cp_UUID = c_UUID c, cp_props = props c,
      cp_value = c_value c, cp_eventOnlyCharacteristic = eventOnlyCharacteristic c\<rparr>"

text \<open>
  The inner loop over \<^verbatim>\<open>service.linkedServices\<close>. The source appends to the UUID of
  the target \<^verbatim>\<open>(linkedServices.subtype || "")\<close>, where \<^verbatim>\<open>linkedServices\<close> is the
  dictionary under construction: the property \<^verbatim>\<open>subtype\<close> of that dictionary is the
  array stored under the key \<^verbatim>\<open>"subtype"\<close> if an earlier service had that composite key
  (an array is truthy and is converted to a string by the concatenation), and
  \<^verbatim>\<open>undefined\<close> otherwise. A linked object that is not a service has no property
  \<^verbatim>\<open>UUID\<close>, and \<^verbatim>\<open>undefined\<close> is concatenated as the string \<^verbatim>\<open>"undefined"\<close>.
\<close>

fun linked_UUID :: "(ref \<Rightarrow> service) \<Rightarrow> linked \<Rightarrow> string" where
  "linked_UUID h (LinkedService t) = s_UUID (h t)"
| "linked_UUID h NotAService = ''undefined''"

definition linkedServices_subtype :: "(string \<times> string list) list \<Rightarrow> string" where
  "linkedServices_subtype linked =
     (case map_of linked ''subtype'' of None \<Rightarrow> [] | Some arr \<Rightarrow> array_toString arr)"

definition linkedServicesPresentation ::
  "(ref \<Rightarrow> service) \<Rightarrow> (string \<times> string list) list \<Rightarrow> linked list \<Rightarrow> string list" where
  "linkedServicesPresentation h linked targets =
     map (\<lambda>t. linked_UUID h t @ linkedServices_subtype linked) targets"

definition service_presentation :: "service \<Rightarrow> servicePresentation" where
  "service_presentation s =
     \<lparr>sp_displayName = s_displayName s, sp_UUID = s_UUID s, sp_subtype = subtype s,
      sp_characteristics = map characteristic_presentation (characteristics s)\<rparr>"

fun dictionary_loop ::
  "(ref \<Rightarrow> service) \<Rightarrow> ref list \<Rightarrow> servicePresentation list \<Rightarrow> (string \<times> string list) list \<Rightarrow>
   servicePresentation list \<times> (string \<times> string list) list" where
  "dictionary_loop h [] svcs linked = (svcs, linked)"
| "dictionary_loop h (r # rs) svcs linked =
     (let srv = h r;
          lsp = linkedServicesPresentation h linked (linkedServices srv);
          linked' = js_set (compositeKey (s_UUID srv) (subtype srv)) lsp linked
      in dictionary_loop h rs (svcs @ [service_presentation srv]) linked')"

definition dictionaryPresentation :: "(ref \<Rightarrow> service) \<Rightarrow> accessory \<Rightarrow> accessoryPresentation" where
  "dictionaryPresentation h this =
     (let (svcs, linked) = dictionary_loop h (services this) [] []
      in \<lparr>plugin = associatedPlugin this, platform = associatedPlatform this,
          d_displayName = displayName this, d_UUID = UUID this,
          d_category = category this, d_context = acc_context this,
          d_linkedServices = Some linked, d_services = svcs\<rparr>)"

section \<open>Deserializer\<close>

definition characteristic_from :: "characteristicPresentation \<Rightarrow> characteristic" where
  "characteristic_from c =
     (new_Characteristic (cp_displayName c) (cp_UUID c) (cp_props c))
       \<lparr>eventOnlyCharacteristic := cp_eventOnlyCharacteristic c, c_value := cp_value c\<rparr>"

text \<open>
  Modelled from the spec: \<^verbatim>\<open>_sideloadCharacteristics\<close> of hap-nodejs installs the
  whole list, and \<^verbatim>\<open>addLinkedService\<close> adds one edge to the source service.
\<close>

definition sideloadCharacteristics :: "characteristic list \<Rightarrow> service \<Rightarrow> service" where
  "sideloadCharacteristics cs s = s\<lparr>characteristics := cs\<rparr>"

definition addLinkedService :: "ref \<Rightarrow> linked \<Rightarrow> (ref \<Rightarrow> service) \<Rightarrow> (ref \<Rightarrow> service)" where
  "addLinkedService src tgt h = h(src := (h src)\<lparr>linkedServices := linkedServices (h src) @ [tgt]\<rparr>)"

definition hapService_from :: "servicePresentation \<Rightarrow> service" where
  "hapService_from sp =
     sideloadCharacteristics (map characteristic_from (sp_characteristics sp))
       (new_Service (sp_displayName sp) (sp_UUID sp) (sp_subtype sp))"

text \<open>
  The lookup \<^verbatim>\<open>servicesMap\<close> is a plain object literal \<^verbatim>\<open>{}\<close>, so reading a property
  of it follows the prototype chain. Its own properties are the composite keys that the
  first loop has stored. Its prototype is \<^verbatim>\<open>Object.prototype\<close> (\<open>None\<close> below) until a
  service with the composite key \<^verbatim>\<open>__proto__\<close> is stored: that assignment creates no
  own property and makes the service object the prototype of the lookup.
\<close>

record lookup_object =
  own_properties :: "string \<rightharpoonup> ref"
  prototype :: "ref option"

definition empty_object :: lookup_object where
  "empty_object = \<lparr>own_properties = Map.empty, prototype = None\<rparr>"

text \<open>The members that every object inherits from \<^verbatim>\<open>Object.prototype\<close>, \<^verbatim>\<open>__proto__\<close> apart.\<close>

definition Object_prototype_names :: "string list" where
  "Object_prototype_names =
     [''constructor'', ''hasOwnProperty'', ''isPrototypeOf'', ''propertyIsEnumerable'',
      ''toLocaleString'', ''toString'', ''valueOf'', ''__defineGetter__'',
      ''__defineSetter__'', ''__lookupGetter__'', ''__lookupSetter__'']"

text \<open>
  What \<^verbatim>\<open>servicesMap[k]\<close> yields: \<^verbatim>\<open>undefined\<close>, a service object, or a truthy value
  that is not a service (an inherited function or object).
\<close>

datatype property = Undefined | ServiceObject ref | OtherValue

text \<open>\<^verbatim>\<open>servicesMap[k] = hapService\<close>\<close>

definition js_assign :: "string \<Rightarrow> ref \<Rightarrow> lookup_object \<Rightarrow> lookup_object" where
  "js_assign k r m =
     (if k = ''__proto__'' then m\<lparr>prototype := Some r\<rparr>
      else m\<lparr>own_properties := (own_properties m)(k \<mapsto> r)\<rparr>)"

text \<open>
  \<^verbatim>\<open>servicesMap[k]\<close>. \<^verbatim>\<open>__proto__\<close> reads the prototype itself. Any other key is an own
  property, or else a member of \<^verbatim>\<open>Object.prototype\<close>, or else, when a service object
  has become the prototype, a member of that object. The class of service objects belongs
  to hap-nodejs, so the parameter \<open>truthy_member\<close> says for a service object and a name
  whether the object has a member of that name with a truthy value; no such member is
  itself a service.
\<close>

definition js_read ::
  "(service \<Rightarrow> string \<Rightarrow> bool) \<Rightarrow> (ref \<Rightarrow> service) \<Rightarrow> lookup_object \<Rightarrow> string \<Rightarrow> property" where
  "js_read truthy_member h m k =
     (if k = ''__proto__'' then
        (case prototype m of None \<Rightarrow> OtherValue | Some r \<Rightarrow> ServiceObject r)
      else
        (case own_properties m k of
           Some r \<Rightarrow> ServiceObject r
         | None \<Rightarrow>
             if k \<in> set Object_prototype_names then OtherValue
             else
               (case prototype m of
                  None \<Rightarrow> Undefined
                | Some r \<Rightarrow> if truthy_member (h r) k then OtherValue else Undefined)))"

text \<open>
  The first loop of \<^verbatim>\<open>_configFromData\<close>: one new service object for each entry
  (\<open>hapService_from\<close> is the body that builds it), the list of the new objects and the
  lookup \<^verbatim>\<open>servicesMap\<close> from composite key to object.
\<close>

fun configFromData_services ::
  "servicePresentation list \<Rightarrow> store \<Rightarrow> ref list \<Rightarrow> lookup_object \<Rightarrow>
   store \<times> ref list \<times> lookup_object" where
  "configFromData_services [] st svcs servicesMap = (st, svcs, servicesMap)"
| "configFromData_services (sp # sps) st svcs servicesMap =
     (let (r, st') = alloc (hapService_from sp) st
      in configFromData_services sps st' (svcs @ [r])
           (js_assign (compositeKey (sp_UUID sp) (sp_subtype sp)) r servicesMap))"

text \<open>
  The second loop. \<open>link_targets\<close> is the inner loop over the list stored under one
  key; \<open>src\<close> is the truthy value that \<^verbatim>\<open>servicesMap[key]\<close> gave. A target key that
  reads as \<^verbatim>\<open>undefined\<close> is skipped. For any other target key the source calls
  \<^verbatim>\<open>servicesMap[key].addLinkedService(...)\<close>: when \<open>src\<close> is a service object the
  value found under the target key is linked, also when that value is not a service; when
  \<open>src\<close> is not a service it has no method \<^verbatim>\<open>addLinkedService\<close> and the call raises
  a \<^verbatim>\<open>TypeError\<close>.
\<close>

fun link_targets ::
  "(service \<Rightarrow> string \<Rightarrow> bool) \<Rightarrow> lookup_object \<Rightarrow> property \<Rightarrow> string list \<Rightarrow>
   (ref \<Rightarrow> service) \<Rightarrow> error + (ref \<Rightarrow> service)" where
  "link_targets truthy_member servicesMap src [] h = Inr h"
| "link_targets truthy_member servicesMap src (linkedServiceKey # linkedServiceKeys) h =
     (case js_read truthy_member h servicesMap linkedServiceKey of
        Undefined \<Rightarrow> link_targets truthy_member servicesMap src linkedServiceKeys h
      | ServiceObject t \<Rightarrow>
          (case src of
             ServiceObject s \<Rightarrow>
               link_targets truthy_member servicesMap src linkedServiceKeys
                 (addLinkedService s (LinkedService t) h)
           | _ \<Rightarrow> Inl TypeError)
      | OtherValue \<Rightarrow>
          (case src of
             ServiceObject s \<Rightarrow>
               link_targets truthy_member servicesMap src linkedServiceKeys
                 (addLinkedService s NotAService h)
           | _ \<Rightarrow> Inl TypeError))"

text \<open>
  \<open>link_keys\<close> is the outer loop over a list of keys of \<^verbatim>\<open>data.linkedServices\<close>: a
  key that reads as \<^verbatim>\<open>undefined\<close> in the lookup is skipped, for any other key the
  inner loop runs over the list stored under it. \<open>link_all\<close> runs the loop over the
  keys of the dictionary.
\<close>

fun link_keys ::
  "(service \<Rightarrow> string \<Rightarrow> bool) \<Rightarrow> lookup_object \<Rightarrow> (string \<times> string list) list \<Rightarrow>
   string list \<Rightarrow> (ref \<Rightarrow> service) \<Rightarrow> error + (ref \<Rightarrow> service)" where
  "link_keys truthy_member servicesMap linked [] h = Inr h"
| "link_keys truthy_member servicesMap linked (key # keys) h =
     (case js_read truthy_member h servicesMap key of
        Undefined \<Rightarrow> link_keys truthy_member servicesMap linked keys h
      | src \<Rightarrow>
          (case link_targets truthy_member servicesMap src
                  (case map_of linked key of None \<Rightarrow> [] | Some ks \<Rightarrow> ks) h of
             Inl e \<Rightarrow> Inl e
           | Inr h' \<Rightarrow> link_keys truthy_member servicesMap linked keys h'))"

definition link_all ::
  "(service \<Rightarrow> string \<Rightarrow> bool) \<Rightarrow> lookup_object \<Rightarrow> (string \<times> string list) list \<Rightarrow>
   (ref \<Rightarrow> service) \<Rightarrow> error + (ref \<Rightarrow> service)" where
  "link_all truthy_member servicesMap linked h =
     link_keys truthy_member servicesMap linked (map fst linked) h"

text \<open>
  \<^verbatim>\<open>_configFromData\<close>. The result is the error raised in the second loop, or the store
  and the accessory after the call; the list of services is assigned last, so it is not
  assigned when the second loop raises.
\<close>

definition configFromData ::
  "(service \<Rightarrow> string \<Rightarrow> bool) \<Rightarrow> store \<Rightarrow> accessory \<Rightarrow> accessoryPresentation \<Rightarrow>
   error + (store \<times> accessory)" where
  "configFromData truthy_member st this data =
     (let this1 = this\<lparr>associatedPlugin := plugin data, associatedPlatform := platform data,
                       displayName := d_displayName data, UUID := d_UUID data,
                       category := d_category data, acc_context := d_context data,
                       reachable := False\<rparr>;
          (st1, svcs, servicesMap) = configFromData_services (d_services data) st [] empty_object
      in case d_linkedServices data of
           None \<Rightarrow> Inr (st1, this1\<lparr>services := svcs\<rparr>)
         | Some linked \<Rightarrow>
             (case link_all truthy_member servicesMap linked (heap st1) of
                Inl e \<Rightarrow> Inl e
              | Inr h \<Rightarrow> Inr (st1\<lparr>heap := h\<rparr>, this1\<lparr>services := svcs\<rparr>)))"

text \<open>The lookup that \<^verbatim>\<open>_configFromData\<close> builds for a dictionary.\<close>

definition servicesMap_of :: "store \<Rightarrow> accessoryPresentation \<Rightarrow> lookup_object" where
  "servicesMap_of st data = snd (snd (configFromData_services (d_services data) st [] empty_object))"

text \<open>A key that is neither \<^verbatim>\<open>__proto__\<close> nor the name of a member of \<^verbatim>\<open>Object.prototype\<close>.\<close>

definition ordinary_key :: "string \<Rightarrow> bool" where
  "ordinary_key k = (k \<noteq> ''__proto__'' \<and> k \<notin> set Object_prototype_names)"

text \<open>
  The composite keys of the objects that a service object links to, computed as the
  serializer computes the key of a service.
\<close>

fun linked_key :: "(ref \<Rightarrow> service) \<Rightarrow> linked \<Rightarrow> string" where
  "linked_key h (LinkedService t) = compositeKey (s_UUID (h t)) (subtype (h t))"
| "linked_key h NotAService = ''undefined''"

definition linked_keys :: "(ref \<Rightarrow> service) \<Rightarrow> ref \<Rightarrow> string set" where
  "linked_keys h r = set (map (linked_key h) (linkedServices (h r)))"

section \<open>Example objects\<close>

text \<open>
  A store with four service objects. \<open>0\<close> is a service with UUID \<open>A\<close> and no subtype
  that links to \<open>1\<close>, a service with UUID \<open>B\<close> and subtype \<open>x\<close>. \<open>2\<close> and \<open>3\<close> are
  two light bulbs that share the UUID \<open>L\<close> and the display name and differ in their
  subtype. \<open>4\<close> has the UUID \<open>A\<close> of \<open>0\<close> and a subtype of its own.
\<close>

definition example_heap :: "ref \<Rightarrow> service" where
  "example_heap =
     (\<lambda>_. new_Service None [] None)
       (0 := (new_Service (Some ''S1'') ''A'' None)\<lparr>linkedServices := [LinkedService 1]\<rparr>,
        1 := new_Service (Some ''S2'') ''B'' (Some ''x''),
        2 := (new_Service (Some ''Light'') ''L'' (Some ''a''))\<lparr>instanceOf := [''Lightbulb'', ''Service'']\<rparr>,
        3 := (new_Service (Some ''Light'') ''L'' (Some ''b''))\<lparr>instanceOf := [''Lightbulb'', ''Service'']\<rparr>,
        4 := new_Service (Some ''S3'') ''A'' (Some ''y''))"

definition example_store :: store where
  "example_store = \<lparr>heap = example_heap, next_ref = 5\<rparr>"

definition example_accessory :: "ref list \<Rightarrow> accessory" where
  "example_accessory rs =
     \<lparr>displayName = ''Lamp'', UUID = ''4a0a1b2c-3d4e-4f50-8a9b-0123456789ab'',
      category = 5, services = rs, reachable = False,
      acc_context = [(''room'', JStr ''hall'')],
      associatedPlugin = Some ''plugin'', associatedPlatform = Some ''platform'',
      associatedHAPAccessory = None\<rparr>"

text \<open>An accessory with other contents, into which a dictionary is deserialized.\<close>

definition restored_accessory :: accessory where
  "restored_accessory =
     \<lparr>displayName = ''Restored'', UUID = ''00000000-0000-4000-8000-000000000000'',
      category = 1, services = [], reachable = True, acc_context = [],
      associatedPlugin = None, associatedPlatform = None,
      associatedHAPAccessory = None\<rparr>"

definition example_hap :: hap_accessory where
  "example_hap =
     \<lparr>hap_displayName = ''Lamp'', hap_UUID = ''4a0a1b2c-3d4e-4f50-8a9b-0123456789ab'',
      hap_services = [2, 3], hap_category = 5, hap_reachable = False\<rparr>"

text \<open>A dictionary whose linked services name two keys that no service of it has.\<close>

definition stale_data :: accessoryPresentation where
  "stale_data =
     \<lparr>plugin = None, platform = None, d_displayName = ''Lamp'',
      d_UUID = ''4a0a1b2c-3d4e-4f50-8a9b-0123456789ab'', d_category = 5, d_context = [],
      d_linkedServices = Some [(''A'', [''gone'', ''B'']), (''old'', [''A''])],
      d_services =
        [\<lparr>sp_displayName = Some ''S1'', sp_UUID = ''A'', sp_subtype = None, sp_characteristics = []\<rparr>,
         \<lparr>sp_displayName = Some ''S2'', sp_UUID = ''B'', sp_subtype = None, sp_characteristics = []\<rparr>]\<rparr>"

text \<open>
  Two dictionaries with the services \<open>A\<close> and \<open>B\<close> whose linked services name a member
  of \<^verbatim>\<open>Object.prototype\<close> that no service has as its composite key: the first as a
  source key, after an entry that resolves, the second as a target key.
\<close>

definition constructor_source_data :: accessoryPresentation where
  "constructor_source_data =
     stale_data\<lparr>d_linkedServices := Some [(''A'', [''B'']), (''constructor'', [''A''])]\<rparr>"

definition toString_target_data :: accessoryPresentation where
  "toString_target_data =
     stale_data\<lparr>d_linkedServices := Some [(''A'', [''toString'', ''B''])]\<rparr>"

text \<open>
  Modelled from the spec: the members of a service object that the sources and the spec
  name, for use where the parameter \<open>truthy_member\<close> has to be a concrete function.
  Arrays and methods are truthy, a string is truthy unless it is absent or empty.
\<close>

definition named_members :: "service \<Rightarrow> string \<Rightarrow> bool" where
  "named_members s k =
     (if k = ''UUID'' then s_UUID s \<noteq> []
      else if k = ''displayName'' then \<not> falsy (s_displayName s)
      else if k = ''name'' then \<not> falsy (s_name s)
      else if k = ''subtype'' then \<not> falsy (subtype s)
      else k \<in> set [''characteristics'', ''linkedServices'', ''addLinkedService'',
                     ''_sideloadCharacteristics'', ''setCharacteristic'',
                     ''removeAllListeners''])"

section \<open>Lookup of services\<close>

lemma getService_loop_None:
  "getService_loop h sel rs = None \<longleftrightarrow> (\<forall>r\<in>set rs. \<not> selects sel (h r))"
  by (induction rs) auto

lemma getService_loop_Some:
  "getService_loop h sel rs = Some r \<Longrightarrow>
   \<exists>i<length rs. rs ! i = r \<and> selects sel (h r) \<and> (\<forall>j<i. \<not> selects sel (h (rs ! j)))"
proof (induction rs)
  case Nil
  then show ?case by simp
next
  case (Cons x xs)
  show ?case
  proof (cases "selects sel (h x)")
    case True
    with Cons.prems have "x = r" by simp
    with True show ?thesis by (intro exI[of _ 0]) simp
  next
    case False
    with Cons.prems have "getService_loop h sel xs = Some r" by simp
    from Cons.IH[OF this] obtain i where i: "i < length xs" "xs ! i = r" "selects sel (h r)"
      "\<forall>j<i. \<not> selects sel (h (xs ! j))" by blast
    have "\<forall>j<Suc i. \<not> selects sel (h ((x # xs) ! j))"
      using False i(4) by (auto simp: less_Suc_eq_0_disj)
    with i show ?thesis by (intro exI[of _ "Suc i"]) simp
  qed
qed

lemma getServiceByUUIDAndSubType_loop_None:
  "getServiceByUUIDAndSubType_loop h sel st rs = None \<longleftrightarrow>
   (\<forall>r\<in>set rs. \<not> (selects sel (h r) \<and> subtype (h r) = st))"
  by (induction rs) auto

lemma getServiceByUUIDAndSubType_loop_Some:
  "getServiceByUUIDAndSubType_loop h sel st rs = Some r \<Longrightarrow>
   \<exists>i<length rs. rs ! i = r \<and> selects sel (h r) \<and> subtype (h r) = st \<and>
     (\<forall>j<i. \<not> (selects sel (h (rs ! j)) \<and> subtype (h (rs ! j)) = st))"
proof (induction rs)
  case Nil
  then show ?case by simp
next
  case (Cons x xs)
  show ?case
  proof (cases "selects sel (h x) \<and> subtype (h x) = st")
    case True
    with Cons.prems have "x = r" by simp
    with True show ?thesis by (intro exI[of _ 0]) simp
  next
    case False
    with Cons.prems have "getServiceByUUIDAndSubType_loop h sel st xs = Some r" by auto
    from Cons.IH[OF this] obtain i where i: "i < length xs" "xs ! i = r" "selects sel (h r)"
      "subtype (h r) = st"
      "\<forall>j<i. \<not> (selects sel (h (xs ! j)) \<and> subtype (h (xs ! j)) = st)" by blast
    have "\<forall>j<Suc i. \<not> (selects sel (h ((x # xs) ! j)) \<and> subtype (h ((x # xs) ! j)) = st)"
      using False i(5) by (auto simp: less_Suc_eq_0_disj)
    with i show ?thesis by (intro exI[of _ "Suc i"]) simp
  qed
qed

text \<open>
  C9. When several services match a selector, \<^verbatim>\<open>getService\<close> returns the first
  matching service in insertion order, and \<^verbatim>\<open>getServiceByUUIDAndSubType\<close> returns the
  first service in insertion order that matches the selector and has exactly the given
  subtype; each returns nothing exactly when no service matches.
\<close>

theorem getService_first_match:
  "(getService h this sel = None \<longleftrightarrow> (\<forall>r\<in>set (services this). \<not> selects sel (h r))) \<and>
   (\<forall>r. getService h this sel = Some r \<longrightarrow>
      (\<exists>i<length (services this). services this ! i = r \<and> selects sel (h r) \<and>
         (\<forall>j<i. \<not> selects sel (h (services this ! j))))) \<and>
   (getServiceByUUIDAndSubType h this sel st = None \<longleftrightarrow>
      (\<forall>r\<in>set (services this). \<not> (selects sel (h r) \<and> subtype (h r) = st))) \<and>
   (\<forall>r. getServiceByUUIDAndSubType h this sel st = Some r \<longrightarrow>
      (\<exists>i<length (services this). services this ! i = r \<and> selects sel (h r) \<and>
         subtype (h r) = st \<and>
         (\<forall>j<i. \<not> (selects sel (h (services this ! j)) \<and> subtype (h (services this ! j)) = st))))"
proof (intro conjI allI impI)
  show "getService h this sel = None \<longleftrightarrow> (\<forall>r\<in>set (services this). \<not> selects sel (h r))"
    unfolding getService_def by (rule getService_loop_None)
next
  fix r assume "getService h this sel = Some r"
  then show "\<exists>i<length (services this). services this ! i = r \<and> selects sel (h r) \<and>
         (\<forall>j<i. \<not> selects sel (h (services this ! j)))"
    unfolding getService_def by (rule getService_loop_Some)
next
  show "getServiceByUUIDAndSubType h this sel st = None \<longleftrightarrow>
      (\<forall>r\<in>set (services this). \<not> (selects sel (h r) \<and> subtype (h r) = st))"
    unfolding getServiceByUUIDAndSubType_def by (rule getServiceByUUIDAndSubType_loop_None)
next
  fix r assume "getServiceByUUIDAndSubType h this sel st = Some r"
  then show "\<exists>i<length (services this). services this ! i = r \<and> selects sel (h r) \<and>
         subtype (h r) = st \<and>
         (\<forall>j<i. \<not> (selects sel (h (services this ! j)) \<and> subtype (h (services this ! j)) = st))"
    unfolding getServiceByUUIDAndSubType_def by (rule getServiceByUUIDAndSubType_loop_Some)
qed

theorem getService_first_match_witness:
  "getService example_heap (example_accessory [0, 2, 3]) (SelFunction ''Lightbulb'' (Some ''L'')) = Some 2 \<and>
   getServiceByUUIDAndSubType example_heap (example_accessory [0, 2, 3])
     (SelFunction ''Lightbulb'' (Some ''L'')) (Some ''b'') = Some 3 \<and>
   (\<exists>i<length (services (example_accessory [0, 2, 3])).
      services (example_accessory [0, 2, 3]) ! i = 3 \<and>
      (\<forall>j<i. \<not> (selects (SelFunction ''Lightbulb'' (Some ''L'')) (example_heap (services (example_accessory [0, 2, 3]) ! j)) \<and>
                 subtype (example_heap (services (example_accessory [0, 2, 3]) ! j)) = Some ''b''))) \<and>
   getService example_heap (example_accessory [0, 2, 3]) (SelString ''Fan'') = None"
proof -
  have a: "getService example_heap (example_accessory [0, 2, 3]) (SelFunction ''Lightbulb'' (Some ''L'')) = Some 2"
    by code_simp
  have b: "getServiceByUUIDAndSubType example_heap (example_accessory [0, 2, 3])
     (SelFunction ''Lightbulb'' (Some ''L'')) (Some ''b'') = Some 3"
    by code_simp
  have c: "getService example_heap (example_accessory [0, 2, 3]) (SelString ''Fan'') = None"
    by code_simp
  from a b c getService_first_match[of example_heap "example_accessory [0, 2, 3]"
      "SelFunction ''Lightbulb'' (Some ''L'')" "Some ''b''"]
  show ?thesis by blast
qed

section \<open>Reachability\<close>

text \<open>
  C8. After \<^verbatim>\<open>updateReachability(value)\<close> the field \<open>reachable\<close> of the model is
  \<open>value\<close>; an attached HAP accessory has the same reachability as the model and is
  otherwise unchanged; without an attached HAP accessory only the local field changes.
\<close>

theorem updateReachability_mirrors:
  "reachable (updateReachability this v) = v \<and>
   (\<forall>a. associatedHAPAccessory this = Some a \<longrightarrow>
      (\<exists>a'. associatedHAPAccessory (updateReachability this v) = Some a' \<and>
            hap_reachable a' = reachable (updateReachability this v) \<and>
            a' = a\<lparr>hap_reachable := v\<rparr>)) \<and>
   (associatedHAPAccessory this = None \<longrightarrow>
      updateReachability this v = this\<lparr>reachable := v\<rparr>)"
  by (simp add: updateReachability_def hap_updateReachability_def)

theorem updateReachability_mirrors_witness:
  "reachable (updateReachability ((example_accessory [2, 3])\<lparr>associatedHAPAccessory := Some example_hap\<rparr>) True) = True \<and>
   (\<exists>a'. associatedHAPAccessory
            (updateReachability ((example_accessory [2, 3])\<lparr>associatedHAPAccessory := Some example_hap\<rparr>) True) = Some a' \<and>
          hap_reachable a' = True) \<and>
   updateReachability (example_accessory [2, 3]) True = (example_accessory [2, 3])\<lparr>reachable := True\<rparr>"
  using updateReachability_mirrors[of "(example_accessory [2, 3])\<lparr>associatedHAPAccessory := Some example_hap\<rparr>" True]
    updateReachability_mirrors[of "example_accessory [2, 3]" True]
  by (simp add: example_accessory_def)

section \<open>Adding services\<close>

lemma addService_check_absent_subtype:
  "e \<in> set es \<Longrightarrow> s_UUID (h e) = s_UUID srv \<Longrightarrow> subtype (h e) = None \<Longrightarrow>
   addService_check h srv es \<noteq> None"
  by (induction es) (auto simp: Let_def split: option.splits)

text \<open>
  C10. When the model holds a service with UUID \<open>u\<close> and no subtype, every call of
  \<^verbatim>\<open>addService\<close> with a service of UUID \<open>u\<close> raises an error and never succeeds,
  whatever subtype the new service carries.
\<close>

theorem addService_existing_without_subtype:
  assumes "e \<in> set (services this)" and "s_UUID (h e) = s_UUID (h r)" and "subtype (h e) = None"
  shows "(\<exists>err. addService h this r = Inl err) \<and> (\<forall>this'. addService h this r \<noteq> Inr this')"
proof -
  from addService_check_absent_subtype[of e "services this" h "h r"] assms
  obtain err where "addService_check h (h r) (services this) = Some err" by blast
  then show ?thesis by (simp add: addService_def)
qed

theorem addService_existing_without_subtype_witness:
  "0 \<in> set (services (example_accessory [2, 0])) \<and> s_UUID (example_heap 0) = s_UUID (example_heap 4) \<and>
   subtype (example_heap 0) = None \<and> subtype (example_heap 4) = Some ''y'' \<and>
   (\<exists>err. addService example_heap (example_accessory [2, 0]) 4 = Inl err)"
proof -
  have a: "0 \<in> set (services (example_accessory [2, 0]))" by code_simp
  have b: "s_UUID (example_heap 0) = s_UUID (example_heap 4)" by code_simp
  have c: "subtype (example_heap 0) = None" by code_simp
  have d: "subtype (example_heap 4) = Some ''y''" by code_simp
  from a b c d addService_existing_without_subtype[OF a b c] show ?thesis by blast
qed

text \<open>
  C3. Adding a second service with the UUID of an existing service and a subtype that
  no existing service with that UUID has should succeed. With the existing service
  \<open>0\<close> (UUID \<open>A\<close>, no subtype) and the new service \<open>4\<close> (UUID \<open>A\<close>, subtype \<open>y\<close>)
  the call raises a \<^verbatim>\<open>TypeError\<close> instead: the comparison reads
  \<^verbatim>\<open>existing.subtype.toString()\<close> of an undefined subtype.
\<close>

theorem addService_distinct_subtype_TypeError:
  "s_UUID (example_heap 0) = ''A'' \<and> subtype (example_heap 0) = None \<and>
   s_UUID (example_heap 4) = ''A'' \<and> subtype (example_heap 4) = Some ''y'' \<and>
   services (example_accessory [0]) = [0] \<and>
   addService example_heap (example_accessory [0]) 4 = Inl TypeError"
  by (intro conjI; code_simp)

text \<open>
  The two halves of the rule where the code keeps it: a new service without subtype is
  refused with a \<open>DuplicateIdentityError\<close>, and a new service with a subtype of its
  own is added when every existing service with the same UUID has a subtype.
\<close>

lemma addService_check_no_subtype:
  "e \<in> set es \<Longrightarrow> s_UUID (h e) = s_UUID srv \<Longrightarrow> falsy (subtype srv) \<Longrightarrow>
   addService_check h srv es = Some (DuplicateIdentityError (s_UUID srv) None)"
  by (induction es) (auto simp: Let_def)

lemma addService_without_subtype_fails:
  assumes "e \<in> set (services this)" and "s_UUID (h e) = s_UUID (h r)" and "falsy (subtype (h r))"
  shows "addService h this r = Inl (DuplicateIdentityError (s_UUID (h r)) None)"
  using addService_check_no_subtype[of e "services this" h "h r"] assms by (simp add: addService_def)

lemma truthy_or_empty: "\<not> falsy st \<Longrightarrow> Some (or_empty st) = st"
  by (cases st) auto

lemma addService_check_distinct_subtype:
  "\<not> falsy (subtype srv) \<Longrightarrow>
   \<forall>e\<in>set es. s_UUID (h e) = s_UUID srv \<longrightarrow>
     (\<exists>est. subtype (h e) = Some est \<and> Some est \<noteq> subtype srv) \<Longrightarrow>
   addService_check h srv es = None"
  by (induction es) (auto simp: Let_def truthy_or_empty split: option.splits)

lemma addService_distinct_subtype_succeeds:
  assumes "\<not> falsy (subtype (h r))"
    and "\<forall>e\<in>set (services this). s_UUID (h e) = s_UUID (h r) \<longrightarrow>
           (\<exists>est. subtype (h e) = Some est \<and> Some est \<noteq> subtype (h r))"
  shows "\<exists>this'. addService h this r = Inr this' \<and> services this' = services this @ [r] \<and>
           length (services this') = length (services this) + 1"
  using addService_check_distinct_subtype[of "h r" "services this" h] assms by (simp add: addService_def)

text \<open>
  A service object that is in the list already is never added again, so the list built
  by \<^verbatim>\<open>addService\<close> holds no object twice.
\<close>

lemma addService_check_present:
  "r \<in> set es \<Longrightarrow> addService_check h (h r) es \<noteq> None"
  by (induction es) (auto simp: Let_def split: option.splits)

lemma addService_keeps_distinct:
  assumes "distinct (services this)" and "addService h this r = Inr this'"
  shows "distinct (services this')"
proof -
  from assms(2) have none: "addService_check h (h r) (services this) = None"
    by (simp add: addService_def split: option.splits)
  with addService_check_present[of r "services this" h] have "r \<notin> set (services this)"
    by blast
  moreover from assms(2) none have "services this' = services this @ [r]"
    by (auto simp: addService_def)
  ultimately show ?thesis using assms(1) by simp
qed

section \<open>Construction of an accessory\<close>

lemma PlatformAccessory_valid:
  assumes "dn \<noteq> []" and "u \<noteq> []" and "isValid u"
  shows "PlatformAccessory isValid st dn u cat =
    Inr (setCharacteristic (next_ref st) Characteristic_SerialNumber (JStr ''Default-SerialNumber'')
          (setCharacteristic (next_ref st) Characteristic_Model (JStr ''Default-Model'')
            (setCharacteristic (next_ref st) Characteristic_Manufacturer (JStr ''Default-Manufacturer'')
              (setCharacteristic (next_ref st) Characteristic_Name (JStr dn)
                 (snd (alloc Service_AccessoryInformation st))))),
         \<lparr>displayName = dn, UUID = u, category = category_or_OTHER cat,
          services = [next_ref st], reachable = False, acc_context = [],
          associatedPlugin = None, associatedPlatform = None,
          associatedHAPAccessory = None\<rparr>)"
  using assms by (simp add: PlatformAccessory_def alloc_def addService_def)

text \<open>
  C4. The construction fails with an \<open>InvalidArgumentError\<close> exactly when the display
  name is empty, the identifier is empty, or the identifier fails the UUID-format
  validation; it then produces no model, and it succeeds on every other input.
\<close>

theorem PlatformAccessory_fails_iff:
  "((\<exists>a. PlatformAccessory isValid st dn u cat = Inl (InvalidArgumentError a)) \<longleftrightarrow>
      (dn = [] \<or> u = [] \<or> \<not> isValid u)) \<and>
   ((\<exists>st' this. PlatformAccessory isValid st dn u cat = Inr (st', this)) \<longleftrightarrow>
      \<not> (dn = [] \<or> u = [] \<or> \<not> isValid u)) \<and>
   (\<forall>e. PlatformAccessory isValid st dn u cat = Inl e \<longrightarrow> (\<exists>a. e = InvalidArgumentError a))"
proof (cases "dn = [] \<or> u = [] \<or> \<not> isValid u")
  case True
  then show ?thesis by (auto simp: PlatformAccessory_def)
next
  case False
  then show ?thesis using PlatformAccessory_valid[of dn u isValid st cat] by simp
qed

theorem PlatformAccessory_fails_iff_witness:
  "(\<exists>st' this. PlatformAccessory uuid_format example_store ''Lamp''
       ''4a0a1b2c-3d4e-4f50-8a9b-0123456789ab'' None = Inr (st', this)) \<and>
   (\<exists>a. PlatformAccessory uuid_format example_store [] ''4a0a1b2c-3d4e-4f50-8a9b-0123456789ab'' None =
       Inl (InvalidArgumentError a)) \<and>
   (\<exists>a. PlatformAccessory uuid_format example_store ''Lamp'' [] None = Inl (InvalidArgumentError a)) \<and>
   (\<exists>a. PlatformAccessory uuid_format example_store ''Lamp'' ''not-a-uuid'' None =
       Inl (InvalidArgumentError a))"
proof -
  have v: "uuid_format ''4a0a1b2c-3d4e-4f50-8a9b-0123456789ab''"
    by (simp add: uuid_format_def is_hex_def)
  have n: "\<not> uuid_format ''not-a-uuid''"
    by (simp add: uuid_format_def is_hex_def)
  show ?thesis
    using v n
      PlatformAccessory_fails_iff[of uuid_format example_store "''Lamp''"
        "''4a0a1b2c-3d4e-4f50-8a9b-0123456789ab''" None]
      PlatformAccessory_fails_iff[of uuid_format example_store "[]"
        "''4a0a1b2c-3d4e-4f50-8a9b-0123456789ab''" None]
      PlatformAccessory_fails_iff[of uuid_format example_store "''Lamp''" "[]" None]
      PlatformAccessory_fails_iff[of uuid_format example_store "''Lamp''" "''not-a-uuid''" None]
    by simp
qed

lemma AccessoryInformation_values:
  "map (\<lambda>c. (c_UUID c, c_value c))
     (setValue Characteristic_SerialNumber v4
       (setValue Characteristic_Model v3
         (setValue Characteristic_Manufacturer v2
           (setValue Characteristic_Name v1 (characteristics Service_AccessoryInformation))))) =
   [(Characteristic_Name, v1), (Characteristic_Manufacturer, v2),
    (Characteristic_Model, v3), (Characteristic_SerialNumber, v4)]"
  by (simp add: Service_AccessoryInformation_def new_Service_def new_Characteristic_def
      Characteristic_Name_def Characteristic_Manufacturer_def Characteristic_Model_def
      Characteristic_SerialNumber_def)

text \<open>
  C5. For valid arguments the new model has exactly one service, the
  accessory-information service, whose name, manufacturer, model and serial-number
  characteristics carry the display name and the three default values; \<open>reachable\<close> is
  false, and an omitted category becomes \<^verbatim>\<open>Accessory.Categories.OTHER\<close>.
\<close>

theorem PlatformAccessory_fresh:
  assumes "dn \<noteq> []" and "u \<noteq> []" and "isValid u"
  shows "\<exists>st' this. PlatformAccessory isValid st dn u cat = Inr (st', this) \<and>
     displayName this = dn \<and> UUID this = u \<and>
     services this = [next_ref st] \<and> length (services this) = 1 \<and>
     reachable this = False \<and>
     category this = category_or_OTHER cat \<and>
     (cat = None \<longrightarrow> category this = Categories_OTHER) \<and>
     s_UUID (heap st' (next_ref st)) = s_UUID Service_AccessoryInformation \<and>
     instanceOf (heap st' (next_ref st)) = instanceOf Service_AccessoryInformation \<and>
     map (\<lambda>c. (c_UUID c, c_value c)) (characteristics (heap st' (next_ref st))) =
       [(Characteristic_Name, JStr dn),
        (Characteristic_Manufacturer, JStr ''Default-Manufacturer''),
        (Characteristic_Model, JStr ''Default-Model''),
        (Characteristic_SerialNumber, JStr ''Default-SerialNumber'')]"
proof -
  let ?r = "next_ref st"
  let ?st' = "setCharacteristic ?r Characteristic_SerialNumber (JStr ''Default-SerialNumber'')
          (setCharacteristic ?r Characteristic_Model (JStr ''Default-Model'')
            (setCharacteristic ?r Characteristic_Manufacturer (JStr ''Default-Manufacturer'')
              (setCharacteristic ?r Characteristic_Name (JStr dn)
                 (snd (alloc Service_AccessoryInformation st)))))"
  have h: "heap ?st' ?r = Service_AccessoryInformation
      \<lparr>characteristics :=
        setValue Characteristic_SerialNumber (JStr ''Default-SerialNumber'')
         (setValue Characteristic_Model (JStr ''Default-Model'')
           (setValue Characteristic_Manufacturer (JStr ''Default-Manufacturer'')
             (setValue Characteristic_Name (JStr dn) (characteristics Service_AccessoryInformation))))\<rparr>"
    by (simp add: setCharacteristic_def alloc_def)
  let ?acc = "\<lparr>displayName = dn, UUID = u, category = category_or_OTHER cat,
          services = [next_ref st], reachable = False, acc_context = [],
          associatedPlugin = None, associatedPlatform = None,
          associatedHAPAccessory = None\<rparr>"
  have e: "PlatformAccessory isValid st dn u cat = Inr (?st', ?acc)"
    by (rule PlatformAccessory_valid[of dn u isValid st cat, OF assms])
  have f: "displayName ?acc = dn \<and> UUID ?acc = u \<and>
     services ?acc = [next_ref st] \<and> length (services ?acc) = 1 \<and>
     reachable ?acc = False \<and> category ?acc = category_or_OTHER cat \<and>
     (cat = None \<longrightarrow> category ?acc = Categories_OTHER)"
    by simp
  have g: "s_UUID (heap ?st' ?r) = s_UUID Service_AccessoryInformation \<and>
     instanceOf (heap ?st' ?r) = instanceOf Service_AccessoryInformation"
    unfolding h by simp
  have c: "map (\<lambda>c. (c_UUID c, c_value c)) (characteristics (heap ?st' ?r)) =
       [(Characteristic_Name, JStr dn),
        (Characteristic_Manufacturer, JStr ''Default-Manufacturer''),
        (Characteristic_Model, JStr ''Default-Model''),
        (Characteristic_SerialNumber, JStr ''Default-SerialNumber'')]"
    unfolding h by (simp add: AccessoryInformation_values)
  from e f g c show ?thesis
    by (intro exI[of _ ?st'] exI[of _ ?acc]) (elim conjE, (intro conjI; assumption))
qed

theorem PlatformAccessory_fresh_witness:
  "''Lamp'' \<noteq> [] \<and> ''4a0a1b2c-3d4e-4f50-8a9b-0123456789ab'' \<noteq> [] \<and>
   uuid_format ''4a0a1b2c-3d4e-4f50-8a9b-0123456789ab'' \<and>
   (\<exists>st' this. PlatformAccessory uuid_format example_store ''Lamp''
       ''4a0a1b2c-3d4e-4f50-8a9b-0123456789ab'' None = Inr (st', this) \<and>
      services this = [5] \<and> reachable this = False \<and> category this = 1)"
proof -
  have a: "''Lamp'' \<noteq> []" by simp
  have b: "''4a0a1b2c-3d4e-4f50-8a9b-0123456789ab'' \<noteq> []" by simp
  have c: "uuid_format ''4a0a1b2c-3d4e-4f50-8a9b-0123456789ab''"
    by (simp add: uuid_format_def is_hex_def)
  from PlatformAccessory_fresh[of "''Lamp''" "''4a0a1b2c-3d4e-4f50-8a9b-0123456789ab''"
      uuid_format example_store None, OF a b c]
  obtain st' this where "PlatformAccessory uuid_format example_store ''Lamp''
       ''4a0a1b2c-3d4e-4f50-8a9b-0123456789ab'' None = Inr (st', this)"
    "services this = [next_ref example_store]" "reachable this = False"
    "category this = Categories_OTHER" by auto
  then show ?thesis using a b c
    by (auto simp: example_store_def Categories_OTHER_def)
qed

section \<open>Removing services\<close>








section \<open>Serializer\<close>

text \<open>
  C2. The linked-services output should map the composite key of each service to the
  composite keys of its linked services, subtype of the target included. For service
  \<open>0\<close> (key \<open>A\<close>) linked to service \<open>1\<close> (UUID \<open>B\<close>, subtype \<open>x\<close>, key \<open>Bx\<close>) the
  serializer emits \<open>B\<close>: it reads the subtype from the dictionary under construction
  and not from the linked service.
\<close>

theorem dictionaryPresentation_drops_target_subtype:
  "services (example_accessory [0, 1]) = [0, 1] \<and>
   linkedServices (example_heap 0) = [LinkedService 1] \<and>
   compositeKey (s_UUID (example_heap 0)) (subtype (example_heap 0)) = ''A'' \<and>
   compositeKey (s_UUID (example_heap 1)) (subtype (example_heap 1)) = ''Bx'' \<and>
   d_linkedServices (dictionaryPresentation example_heap (example_accessory [0, 1])) =
     Some [(''A'', [''B'']), (''Bx'', [])]"
  by (intro conjI; code_simp)

text \<open>
  As long as no service has the composite key \<^verbatim>\<open>subtype\<close>, the emitted key of a
  linked service is its UUID alone.
\<close>

lemma linkedServicesPresentation_UUID_only:
  "map_of linked ''subtype'' = None \<Longrightarrow>
   linkedServicesPresentation h linked targets = map (linked_UUID h) targets"
  by (simp add: linkedServicesPresentation_def linkedServices_subtype_def)

section \<open>Deserializer\<close>

lemma cfs_services:
  "fst (snd (configFromData_services sps st svcs m)) =
   svcs @ [next_ref st ..< next_ref st + length sps]"
proof (induction sps arbitrary: st svcs m)
  case Nil
  then show ?case by simp
next
  case (Cons sp sps)
  have "[next_ref st ..< next_ref st + Suc (length sps)] =
        next_ref st # [Suc (next_ref st) ..< next_ref st + Suc (length sps)]"
    by (rule upt_conv_Cons) simp
  then show ?case
    by (simp add: alloc_def Cons.IH)
qed

lemma cfs_heap:
  "heap (fst (configFromData_services sps st svcs m)) r =
   (if next_ref st \<le> r \<and> r < next_ref st + length sps
    then hapService_from (sps ! (r - next_ref st)) else heap st r)"
proof (induction sps arbitrary: st svcs m)
  case Nil
  then show ?case by auto
next
  case (Cons sp sps)
  show ?case
    by (auto simp: alloc_def Cons.IH nth_Cons' Suc_diff_le)
qed

lemma cfs_prototype:
  "\<forall>sp\<in>set sps. compositeKey (sp_UUID sp) (sp_subtype sp) \<noteq> ''__proto__'' \<Longrightarrow>
   prototype (snd (snd (configFromData_services sps st svcs m))) = prototype m"
proof (induction sps arbitrary: st svcs m)
  case Nil
  then show ?case by simp
next
  case (Cons sp sps)
  then show ?case
    by (simp add: alloc_def js_assign_def)
qed

lemma cfs_own_None:
  "\<forall>sp\<in>set sps. compositeKey (sp_UUID sp) (sp_subtype sp) \<noteq> ''__proto__'' \<Longrightarrow>
   own_properties (snd (snd (configFromData_services sps st svcs m))) k = None \<longleftrightarrow>
   own_properties m k = None \<and>
   k \<notin> set (map (\<lambda>sp. compositeKey (sp_UUID sp) (sp_subtype sp)) sps)"
proof (induction sps arbitrary: st svcs m)
  case Nil
  then show ?case by simp
next
  case (Cons sp sps)
  then show ?case
    by (auto simp: alloc_def js_assign_def)
qed

lemma cfs_own_Some:
  "\<forall>sp\<in>set sps. compositeKey (sp_UUID sp) (sp_subtype sp) \<noteq> ''__proto__'' \<Longrightarrow>
   own_properties (snd (snd (configFromData_services sps st svcs m))) k = Some r \<Longrightarrow>
   own_properties m k = Some r \<or>
   (\<exists>i<length sps. r = next_ref st + i \<and>
      compositeKey (sp_UUID (sps ! i)) (sp_subtype (sps ! i)) = k)"
proof (induction sps arbitrary: st svcs m)
  case Nil
  then show ?case by simp
next
  case (Cons sp sps)
  let ?st' = "snd (alloc (hapService_from sp) st)"
  let ?m' = "js_assign (compositeKey (sp_UUID sp) (sp_subtype sp)) (next_ref st) m"
  from Cons.prems(1) have rest: "\<forall>sp\<in>set sps. compositeKey (sp_UUID sp) (sp_subtype sp) \<noteq> ''__proto__''"
    and here: "compositeKey (sp_UUID sp) (sp_subtype sp) \<noteq> ''__proto__''"
    by simp_all
  from Cons.prems(2)
  have "own_properties (snd (snd (configFromData_services sps ?st' (svcs @ [next_ref st]) ?m'))) k = Some r"
    by (simp add: alloc_def)
  from Cons.IH[OF rest this]
  consider "own_properties ?m' k = Some r"
    | i where "i < length sps" "r = next_ref ?st' + i"
        "compositeKey (sp_UUID (sps ! i)) (sp_subtype (sps ! i)) = k"
    by blast
  then show ?case
  proof cases
    case 1
    show ?thesis
    proof (cases "k = compositeKey (sp_UUID sp) (sp_subtype sp)")
      case True
      with 1 here have "r = next_ref st + 0" by (simp add: js_assign_def)
      with True show ?thesis by (intro disjI2 exI[of _ 0]) simp
    next
      case False
      with 1 here show ?thesis by (simp add: js_assign_def)
    qed
  next
    case 2
    then show ?thesis by (intro disjI2 exI[of _ "Suc i"]) (simp add: alloc_def)
  qed
qed

lemma js_read_ordinary:
  "prototype m = None \<Longrightarrow> ordinary_key k \<Longrightarrow>
   js_read tm h m k = (case own_properties m k of None \<Rightarrow> Undefined | Some r \<Rightarrow> ServiceObject r)"
  by (simp add: js_read_def ordinary_key_def split: option.splits)

lemma link_targets_ordinary:
  assumes "prototype m = None" and "\<forall>k\<in>set tks. ordinary_key k"
  shows "link_targets tm m (ServiceObject s) tks h =
    Inr (\<lambda>r. (h r)\<lparr>linkedServices :=
           linkedServices (h r) @
           (if r = s then map LinkedService (List.map_filter (own_properties m) tks) else [])\<rparr>)"
  using assms(2)
proof (induction tks arbitrary: h)
  case Nil
  then show ?case by (simp add: fun_eq_iff List.map_filter_def)
next
  case (Cons tk tks)
  then have tk: "ordinary_key tk" and rest: "\<forall>k\<in>set tks. ordinary_key k" by simp_all
  show ?case
  proof (cases "own_properties m tk")
    case None
    then show ?thesis
      by (simp add: js_read_ordinary[OF assms(1) tk] Cons.IH[OF rest] cong: if_cong)
  next
    case (Some t)
    have "(\<lambda>r. (addLinkedService s (LinkedService t) h r)\<lparr>linkedServices :=
             linkedServices (addLinkedService s (LinkedService t) h r) @
             (if r = s then map LinkedService (List.map_filter (own_properties m) tks) else [])\<rparr>) =
          (\<lambda>r. (h r)\<lparr>linkedServices :=
             linkedServices (h r) @
             (if r = s then map LinkedService (List.map_filter (own_properties m) (tk # tks)) else [])\<rparr>)"
      using Some by (auto simp: fun_eq_iff addLinkedService_def)
    with Some show ?thesis
      by (simp add: js_read_ordinary[OF assms(1) tk] Cons.IH[OF rest])
  qed
qed

lemma link_keys_ordinary:
  assumes "prototype m = None"
    and "\<forall>k\<in>set ks. ordinary_key k \<and>
           (\<forall>tk\<in>set (case map_of linked k of None \<Rightarrow> [] | Some tks \<Rightarrow> tks). ordinary_key tk)"
  shows "link_keys tm m linked ks h =
    Inr (\<lambda>r. (h r)\<lparr>linkedServices :=
           linkedServices (h r) @
           concat (map (\<lambda>key. if own_properties m key = Some r
                               then map LinkedService (List.map_filter (own_properties m)
                                      (case map_of linked key of None \<Rightarrow> [] | Some tks \<Rightarrow> tks))
                               else []) ks)\<rparr>)"
  using assms(2)
proof (induction ks arbitrary: h)
  case Nil
  then show ?case by simp
next
  case (Cons key ks)
  let ?val = "\<lambda>k. case map_of linked k of None \<Rightarrow> [] | Some tks \<Rightarrow> tks"
  from Cons.prems have key: "ordinary_key key" and tks: "\<forall>tk\<in>set (?val key). ordinary_key tk"
    and rest: "\<forall>k\<in>set ks. ordinary_key k \<and> (\<forall>tk\<in>set (?val k). ordinary_key tk)"
    by simp_all
  show ?case
  proof (cases "own_properties m key")
    case None
    then show ?thesis
      by (simp add: js_read_ordinary[OF assms(1) key] Cons.IH[OF rest])
  next
    case (Some s)
    then show ?thesis
      by (simp add: js_read_ordinary[OF assms(1) key] link_targets_ordinary[OF assms(1) tks]
          Cons.IH[OF rest] fun_eq_iff)
  qed
qed

lemma set_map_filter: "set (List.map_filter m xs) = {t. \<exists>x\<in>set xs. m x = Some t}"
  by (induction xs) (auto split: option.splits)

lemma link_all_ordinary:
  assumes "prototype m = None"
    and "\<forall>(key, tks)\<in>set linked. ordinary_key key \<and> (\<forall>tk\<in>set tks. ordinary_key tk)"
  shows "\<exists>h'. link_all tm m linked h = Inr h' \<and>
     (\<forall>r. s_UUID (h' r) = s_UUID (h r) \<and> subtype (h' r) = subtype (h r)) \<and>
     (\<forall>r l. l \<in> set (linkedServices (h' r)) \<longleftrightarrow>
        l \<in> set (linkedServices (h r)) \<or>
        (\<exists>key tks tk t. map_of linked key = Some tks \<and> own_properties m key = Some r \<and>
           tk \<in> set tks \<and> own_properties m tk = Some t \<and> l = LinkedService t))"
proof -
  let ?val = "\<lambda>k. case map_of linked k of None \<Rightarrow> [] | Some tks \<Rightarrow> tks"
  let ?new = "\<lambda>r. concat (map (\<lambda>key. if own_properties m key = Some r
                               then map LinkedService (List.map_filter (own_properties m) (?val key))
                               else []) (map fst linked))"
  let ?h' = "\<lambda>r. (h r)\<lparr>linkedServices := linkedServices (h r) @ ?new r\<rparr>"
  have ord: "\<forall>k\<in>set (map fst linked). ordinary_key k \<and> (\<forall>tk\<in>set (?val k). ordinary_key tk)"
  proof
    fix k assume "k \<in> set (map fst linked)"
    then obtain tks where in_l: "(k, tks) \<in> set linked" by auto
    with assms(2) have k: "ordinary_key k" by auto
    have "\<forall>tk\<in>set (?val k). ordinary_key tk"
    proof (cases "map_of linked k")
      case None
      then show ?thesis by simp
    next
      case (Some tks')
      then have "(k, tks') \<in> set linked" by (rule map_of_SomeD)
      with assms(2) Some show ?thesis by auto
    qed
    with k show "ordinary_key k \<and> (\<forall>tk\<in>set (?val k). ordinary_key tk)" by simp
  qed
  have eq: "link_all tm m linked h = Inr ?h'"
    unfolding link_all_def by (rule link_keys_ordinary[OF assms(1) ord])
  have new: "l \<in> set (?new r) \<longleftrightarrow>
        (\<exists>key tks tk t. map_of linked key = Some tks \<and> own_properties m key = Some r \<and>
           tk \<in> set tks \<and> own_properties m tk = Some t \<and> l = LinkedService t)" for r l
  proof
    assume "l \<in> set (?new r)"
    then obtain key where key: "key \<in> set (map fst linked)" "own_properties m key = Some r"
      "l \<in> set (map LinkedService (List.map_filter (own_properties m) (?val key)))"
      by (auto split: if_splits)
    from key(1) obtain tks where tks: "map_of linked key = Some tks"
      by (cases "map_of linked key") (auto simp: map_of_eq_None_iff)
    with key(3) obtain tk t where "tk \<in> set tks" "own_properties m tk = Some t" "l = LinkedService t"
      by (auto simp: set_map_filter)
    with tks key(2) show "\<exists>key tks tk t. map_of linked key = Some tks \<and>
        own_properties m key = Some r \<and> tk \<in> set tks \<and> own_properties m tk = Some t \<and>
        l = LinkedService t" by blast
  next
    assume "\<exists>key tks tk t. map_of linked key = Some tks \<and> own_properties m key = Some r \<and>
           tk \<in> set tks \<and> own_properties m tk = Some t \<and> l = LinkedService t"
    then obtain key tks tk t where k: "map_of linked key = Some tks" "own_properties m key = Some r"
      "tk \<in> set tks" "own_properties m tk = Some t" "l = LinkedService t" by blast
    from k(1) have "(key, tks) \<in> set linked" by (rule map_of_SomeD)
    then have "key \<in> set (map fst linked)" by force
    moreover from k have "l \<in> set (map LinkedService (List.map_filter (own_properties m) (?val key)))"
      by (auto simp: set_map_filter)
    ultimately show "l \<in> set (?new r)" using k(2) by auto
  qed
  have fields: "\<forall>r. s_UUID (?h' r) = s_UUID (h r) \<and> subtype (?h' r) = subtype (h r)" by simp
  have edges: "\<forall>r l. l \<in> set (linkedServices (?h' r)) \<longleftrightarrow>
        l \<in> set (linkedServices (h r)) \<or>
        (\<exists>key tks tk t. map_of linked key = Some tks \<and> own_properties m key = Some r \<and>
           tk \<in> set tks \<and> own_properties m tk = Some t \<and> l = LinkedService t)"
    using new by simp
  from eq fields edges show ?thesis by (intro exI[of _ ?h'] conjI)
qed

lemma hapService_from_fields:
  "s_UUID (hapService_from sp) = sp_UUID sp \<and> subtype (hapService_from sp) = sp_subtype sp \<and>
   linkedServices (hapService_from sp) = []"
  by (simp add: hapService_from_def sideloadCharacteristics_def new_Service_def)

text \<open>
  Where the tolerance of \<^verbatim>\<open>_configFromData\<close> does hold: when no service of the
  dictionary has the composite key \<^verbatim>\<open>__proto__\<close> and every source and target key of
  its linked services is an ordinary key, the call returns, every service is
  reconstructed, the lookup resolves exactly the composite keys of these services, and a
  reconstructed service links exactly to the services whose key is listed under a key
  that resolves to it.
\<close>

lemma configFromData_ordinary_keys:
  assumes "d_linkedServices data = Some linked"
    and "\<forall>sp\<in>set (d_services data). compositeKey (sp_UUID sp) (sp_subtype sp) \<noteq> ''__proto__''"
    and "\<forall>(key, tks)\<in>set linked. ordinary_key key \<and> (\<forall>tk\<in>set tks. ordinary_key tk)"
  shows "\<exists>st' this'. configFromData tm st this data = Inr (st', this') \<and>
     length (services this') = length (d_services data) \<and>
     (\<forall>i<length (d_services data).
        s_UUID (heap st' (services this' ! i)) = sp_UUID (d_services data ! i) \<and>
        subtype (heap st' (services this' ! i)) = sp_subtype (d_services data ! i)) \<and>
     (\<forall>key. own_properties (servicesMap_of st data) key = None \<longleftrightarrow>
        key \<notin> set (map (\<lambda>sp. compositeKey (sp_UUID sp) (sp_subtype sp)) (d_services data))) \<and>
     (\<forall>key r. own_properties (servicesMap_of st data) key = Some r \<longrightarrow>
        r \<in> set (services this') \<and>
        compositeKey (s_UUID (heap st' r)) (subtype (heap st' r)) = key) \<and>
     (\<forall>r\<in>set (services this'). \<forall>l.
        l \<in> set (linkedServices (heap st' r)) \<longleftrightarrow>
        (\<exists>key tks tk t. map_of linked key = Some tks \<and>
           own_properties (servicesMap_of st data) key = Some r \<and> tk \<in> set tks \<and>
           own_properties (servicesMap_of st data) tk = Some t \<and> l = LinkedService t))"
proof -
  let ?sps = "d_services data"
  let ?n = "next_ref st"
  let ?res = "configFromData_services ?sps st [] empty_object"
  let ?st1 = "fst ?res"
  let ?m = "servicesMap_of st data"
  let ?acc = "this\<lparr>associatedPlugin := plugin data, associatedPlatform := platform data,
           displayName := d_displayName data, UUID := d_UUID data,
           category := d_category data, acc_context := d_context data,
           reachable := False,
           services := [?n ..< ?n + length ?sps]\<rparr>"
  have m: "?m = snd (snd ?res)" by (simp add: servicesMap_of_def)
  have proto: "prototype ?m = None"
    unfolding m using cfs_prototype[OF assms(2), of st "[]" empty_object]
    by (simp add: empty_object_def)
  from link_all_ordinary[OF proto assms(3), of tm "heap ?st1"]
  obtain h' where h': "link_all tm ?m linked (heap ?st1) = Inr h'"
    "\<forall>r. s_UUID (h' r) = s_UUID (heap ?st1 r) \<and> subtype (h' r) = subtype (heap ?st1 r)"
    "\<forall>r l. l \<in> set (linkedServices (h' r)) \<longleftrightarrow>
        l \<in> set (linkedServices (heap ?st1 r)) \<or>
        (\<exists>key tks tk t. map_of linked key = Some tks \<and> own_properties ?m key = Some r \<and>
           tk \<in> set tks \<and> own_properties ?m tk = Some t \<and> l = LinkedService t)"
    by blast
  let ?st' = "?st1\<lparr>heap := h'\<rparr>"
  have e: "configFromData tm st this data = Inr (?st', ?acc)"
    using assms(1) h'(1) cfs_services[of ?sps st "[]" empty_object]
    by (simp add: configFromData_def m split_beta)
  have new: "heap ?st1 (?n + i) = hapService_from (?sps ! i)" if "i < length ?sps" for i
    using that by (simp add: cfs_heap)
  have len: "length (services ?acc) = length ?sps" by simp
  have fields: "\<forall>i<length ?sps.
        s_UUID (heap ?st' (services ?acc ! i)) = sp_UUID (?sps ! i) \<and>
        subtype (heap ?st' (services ?acc ! i)) = sp_subtype (?sps ! i)"
    by (simp add: h'(2) new hapService_from_fields)
  have none: "\<forall>key. own_properties ?m key = None \<longleftrightarrow>
        key \<notin> set (map (\<lambda>sp. compositeKey (sp_UUID sp) (sp_subtype sp)) ?sps)"
    unfolding m using cfs_own_None[OF assms(2), of st "[]" empty_object]
    by (simp add: empty_object_def)
  have some: "\<forall>key r. own_properties ?m key = Some r \<longrightarrow>
        r \<in> set (services ?acc) \<and>
        compositeKey (s_UUID (heap ?st' r)) (subtype (heap ?st' r)) = key"
  proof (intro allI impI)
    fix key r assume "own_properties ?m key = Some r"
    then have "own_properties (snd (snd ?res)) key = Some r" by (simp add: m)
    from cfs_own_Some[OF assms(2) this] obtain i where i: "i < length ?sps" "r = ?n + i"
      "compositeKey (sp_UUID (?sps ! i)) (sp_subtype (?sps ! i)) = key"
      by (auto simp: empty_object_def)
    then show "r \<in> set (services ?acc) \<and>
        compositeKey (s_UUID (heap ?st' r)) (subtype (heap ?st' r)) = key"
      by (simp add: h'(2) new hapService_from_fields)
  qed
  have edges: "\<forall>r\<in>set (services ?acc). \<forall>l.
        l \<in> set (linkedServices (heap ?st' r)) \<longleftrightarrow>
        (\<exists>key tks tk t. map_of linked key = Some tks \<and> own_properties ?m key = Some r \<and>
           tk \<in> set tks \<and> own_properties ?m tk = Some t \<and> l = LinkedService t)"
  proof (intro ballI allI)
    fix r l assume "r \<in> set (services ?acc)"
    then obtain i where i: "i < length ?sps" "r = ?n + i"
      by (auto simp: nat_le_iff_add dest: le_Suc_ex)
    then have "linkedServices (heap ?st1 r) = []"
      by (simp add: new hapService_from_fields)
    then show "l \<in> set (linkedServices (heap ?st' r)) \<longleftrightarrow>
        (\<exists>key tks tk t. map_of linked key = Some tks \<and> own_properties ?m key = Some r \<and>
           tk \<in> set tks \<and> own_properties ?m tk = Some t \<and> l = LinkedService t)"
      by (simp add: h'(3))
  qed
  from e len fields none some edges show ?thesis
    by (intro exI[of _ ?st'] exI[of _ ?acc] conjI)
qed

text \<open>
  C7. A dictionary whose linked services name a key that none of its services has
  should be deserialized without failure, the edge being left out. The lookup is a plain
  object, so a key that names a member of \<^verbatim>\<open>Object.prototype\<close> reads as a truthy value
  although no service has it. With the services \<open>A\<close> and \<open>B\<close> and the linked services
  \<^verbatim>\<open>{A: [B], constructor: [A]}\<close> the call raises a \<^verbatim>\<open>TypeError\<close>, so that not even
  the resolvable edge from \<open>A\<close> to \<open>B\<close> survives; with \<^verbatim>\<open>{A: [toString, B]}\<close> the
  call returns, but the first service is linked to an object that is not a service
  instead of the edge being left out.
\<close>

theorem configFromData_inherited_key_TypeError:
  "map (\<lambda>sp. compositeKey (sp_UUID sp) (sp_subtype sp)) (d_services constructor_source_data) =
     [''A'', ''B''] \<and>
   d_linkedServices constructor_source_data =
     Some [(''A'', [''B'']), (''constructor'', [''A''])] \<and>
   (case configFromData named_members example_store (example_accessory []) constructor_source_data of
      Inl e \<Rightarrow> e = TypeError
    | Inr x \<Rightarrow> False) \<and>
   map (\<lambda>sp. compositeKey (sp_UUID sp) (sp_subtype sp)) (d_services toString_target_data) =
     [''A'', ''B''] \<and>
   d_linkedServices toString_target_data = Some [(''A'', [''toString'', ''B''])] \<and>
   (case configFromData named_members example_store (example_accessory []) toString_target_data of
      Inl e \<Rightarrow> False
    | Inr (st', this') \<Rightarrow>
        services this' = [5, 6] \<and>
        linkedServices (heap st' 5) = [NotAService, LinkedService 6] \<and>
        linkedServices (heap st' 6) = [])"
  by (intro conjI; code_simp)

text \<open>
  C1. Deserializing the dictionary of a model should give back the linked-service
  composite keys of every service. For the model with service \<open>0\<close> (UUID \<open>A\<close>) linked
  to service \<open>1\<close> (UUID \<open>B\<close>, subtype \<open>x\<close>) the identity fields, the number of
  services and their UUIDs and subtypes come back, but the link of the first service is
  lost: the serializer wrote the key \<open>B\<close>, which the deserializer cannot resolve.
\<close>

theorem round_trip_loses_link:
  "services (example_accessory [0, 1]) = [0, 1] \<and>
   linkedServices (example_heap 0) = [LinkedService 1] \<and>
   linked_keys example_heap 0 = {''Bx''} \<and>
   (case configFromData named_members example_store restored_accessory
           (dictionaryPresentation example_heap (example_accessory [0, 1])) of
      Inl e \<Rightarrow> False
    | Inr (st', this') \<Rightarrow>
        displayName this' = displayName (example_accessory [0, 1]) \<and>
        UUID this' = UUID (example_accessory [0, 1]) \<and>
        category this' = category (example_accessory [0, 1]) \<and>
        acc_context this' = acc_context (example_accessory [0, 1]) \<and>
        services this' = [5, 6] \<and>
        s_UUID (heap st' 5) = s_UUID (example_heap 0) \<and>
        subtype (heap st' 5) = subtype (example_heap 0) \<and>
        s_UUID (heap st' 6) = s_UUID (example_heap 1) \<and>
        subtype (heap st' 6) = subtype (example_heap 1) \<and>
        linkedServices (heap st' 5) = [] \<and>
        linked_keys (heap st') 5 = {})"
  by (intro conjI; code_simp)

end
